theory Spec2Isabelle
  imports Main "HOL-Library.AList"
begin

section \<open>JavaScript values\<close>

text \<open>
  The values that flow through \<^verbatim>\<open>src/api.js\<close>: filter and option fields, the stored
  API token, and JSON response bodies. Numbers are the integers together with NaN
  (\<^verbatim>\<open>parseInt\<close> in the command-line layer produces it); fractions and infinities are
  left out. An object is its list of own properties in insertion order; a property
  may be present and hold \<^verbatim>\<open>undefined\<close>.
\<close>

datatype jsval =
    JUndefined
  | JNull
  | JBool bool
  | JNum int
  | JNaN
  | JStr string
  | JArr "jsval list"
  | JObj "(string \<times> jsval) list"

type_synonym jsobj = "(string \<times> jsval) list"

text \<open>The truth value JavaScript gives a value in \<^verbatim>\<open>if (v)\<close>, \<^verbatim>\<open>!v\<close> and \<^verbatim>\<open>v || w\<close>.\<close>

fun truthy :: "jsval \<Rightarrow> bool" where
  "truthy JUndefined = False"
| "truthy JNull = False"
| "truthy (JBool b) = b"
| "truthy (JNum n) = (n \<noteq> 0)"
| "truthy JNaN = False"
| "truthy (JStr s) = (s \<noteq> [])"
| "truthy (JArr xs) = True"
| "truthy (JObj kvs) = True"

text \<open>\<^verbatim>\<open>a || b\<close>\<close>

definition js_or :: "jsval \<Rightarrow> jsval \<Rightarrow> jsval" where
  "js_or a b = (if truthy a then a else b)"

text \<open>\<^verbatim>\<open>obj.key\<close> on an object: a missing property reads as \<^verbatim>\<open>undefined\<close>.\<close>

definition get :: "jsobj \<Rightarrow> string \<Rightarrow> jsval" where
  "get obj k = (case map_of obj k of None \<Rightarrow> JUndefined | Some v \<Rightarrow> v)"

text \<open>
  \<^verbatim>\<open>obj.key = v\<close>: an existing property keeps its place and takes the new value, a new
  one is added at the end.
\<close>

definition set_prop :: "jsobj \<Rightarrow> string \<Rightarrow> jsval \<Rightarrow> jsobj" where
  "set_prop obj k v = AList.update k v obj"

text \<open>
  \<^verbatim>\<open>{ ...target, ...source }\<close>: for every own property key of the source, in order, the
  source's value is read and assigned to the target, also when it is \<^verbatim>\<open>undefined\<close>.
\<close>

definition spread :: "jsobj \<Rightarrow> jsobj \<Rightarrow> jsobj" where
  "spread target source = fold (\<lambda>k acc. set_prop acc k (get source k)) (map fst source) target"

text \<open>
  \<^verbatim>\<open>v?.key\<close> on any value: \<^verbatim>\<open>undefined\<close> and \<^verbatim>\<open>null\<close> short-circuit, and the keys
  read in this program exist on no primitive and on no array.
\<close>

fun opt_prop :: "jsval \<Rightarrow> string \<Rightarrow> jsval" where
  "opt_prop (JObj kvs) k = get kvs k"
| "opt_prop v k = JUndefined"

subsection \<open>Conversion to string\<close>

fun digit_char :: "nat \<Rightarrow> char" where
  "digit_char n = char_of (48 + n)"

fun nat_digits :: "nat \<Rightarrow> string" where
  "nat_digits n =
     (if n < 10 then [digit_char n] else nat_digits (n div 10) @ [digit_char (n mod 10)])"

declare nat_digits.simps [simp del]

definition int_string :: "int \<Rightarrow> string" where
  "int_string i = (if i < 0 then CHR ''-'' # nat_digits (nat (- i)) else nat_digits (nat i))"

fun join_comma :: "string list \<Rightarrow> string" where
  "join_comma [] = []"
| "join_comma [s] = s"
| "join_comma (s # t # ts) = s @ '','' @ join_comma (t # ts)"

text \<open>
  What a template literal \<^verbatim>\<open>`${v}`\<close> inserts. An array joins its elements with commas,
  \<^verbatim>\<open>undefined\<close> and \<^verbatim>\<open>null\<close> elements as the empty string. Two cases of the
  language are outside this function: a number from \<open>10^21\<close> on in absolute value is
  printed in exponent form, and an object with an own \<^verbatim>\<open>toString\<close> property makes the
  literal throw a \<^verbatim>\<open>TypeError\<close>. The statements below on the \<^verbatim>\<open>detail\<close> of a
  response are about details that are strings, which the literal inserts as they are.
\<close>

fun to_string :: "jsval \<Rightarrow> string" where
  "to_string JUndefined = ''undefined''"
| "to_string JNull = ''null''"
| "to_string (JBool b) = (if b then ''true'' else ''false'')"
| "to_string (JNum i) = int_string i"
| "to_string JNaN = ''NaN''"
| "to_string (JStr s) = s"
| "to_string (JArr xs) =
     join_comma (map (\<lambda>v. if v = JUndefined \<or> v = JNull then [] else to_string v) xs)"
| "to_string (JObj kvs) = ''[object Object]''"

text \<open>
  \<^verbatim>\<open>String.prototype.toLowerCase\<close>. A character of a string is a code point below 256
  (Latin-1). The capital letters there are A to Z (65 to 90) and the accented capitals
  from 192 to 222 without the multiplication sign 215; the small letter of each is 32
  further on, and every other character is left as it is.
\<close>

definition lower_char :: "char \<Rightarrow> char" where
  "lower_char c =
     (if (65 \<le> (of_char c :: nat) \<and> (of_char c :: nat) \<le> 90)
         \<or> (192 \<le> (of_char c :: nat) \<and> (of_char c :: nat) \<le> 222
             \<and> (of_char c :: nat) \<noteq> 215)
      then char_of ((of_char c :: nat) + 32) else c)"

definition toLowerCase :: "string \<Rightarrow> string" where
  "toLowerCase s = map lower_char s"

section \<open>The request layer\<close>

text \<open>
  \<^verbatim>\<open>axios.get\<close> and \<^verbatim>\<open>getConfig\<close> are not part of \<^verbatim>\<open>src/api.js\<close>; both are parameters
  of the model. \<^verbatim>\<open>axios.get\<close> either resolves with a response (with the default
  settings: a status from 200 to 299) or rejects with an error, which carries the
  response when the server answered. The transport sees the calls issued so far, so
  that a second call could be answered differently from the first.
\<close>

record http_response =
  status :: int
  data :: jsval

datatype js_error = JsError (message: string) (response: "http_response option")

text \<open>\<^verbatim>\<open>new Error(m)\<close>: a message and no \<^verbatim>\<open>response\<close> property.\<close>

definition new_Error :: "string \<Rightarrow> js_error" where
  "new_Error m = JsError m None"

record axios_call =
  call_url :: string
  call_headers :: "(string \<times> string) list"
  call_params :: jsobj

datatype outcome = Resolved http_response | Rejected js_error

type_synonym transport = "axios_call list \<Rightarrow> axios_call \<Rightarrow> outcome"

definition BASE_URL :: string where
  "BASE_URL = ''https://api.globalwinescore.com''"

text \<open>
  \<^verbatim>\<open>getHeaders\<close>; the argument is what \<^verbatim>\<open>getConfig('apiToken')\<close> returned.
\<close>

definition getHeaders :: "jsval \<Rightarrow> js_error + (string \<times> string) list" where
  "getHeaders token =
     (if \<not> truthy token
      then Inl (new_Error
        ''API token not configured. Run: globalwinescore config set --api-token YOUR_TOKEN'')
      else Inr [(''Authorization'', ''Token '' @ to_string token),
                (''Accept'', ''application/json'')])"

text \<open>\<^verbatim>\<open>error.response?.status\<close> and \<^verbatim>\<open>error.response?.data?.detail\<close>\<close>

definition response_status :: "js_error \<Rightarrow> int option" where
  "response_status err = map_option status (response err)"

definition response_detail :: "js_error \<Rightarrow> jsval" where
  "response_detail err =
     (case response err of None \<Rightarrow> JUndefined | Some r \<Rightarrow> opt_prop (data r) ''detail'')"

text \<open>The \<^verbatim>\<open>catch\<close> block of \<^verbatim>\<open>request\<close>: the error it throws for the error it caught.\<close>

definition request_catch :: "js_error \<Rightarrow> js_error" where
  "request_catch err =
     (if response_status err = Some 401
        then new_Error ''Authentication failed. Check your API token.''
      else if response_status err = Some 429
        then new_Error ''Rate limit exceeded. Maximum 10 requests per minute.''
      else if response_status err = Some 403
        then new_Error ''Access forbidden. This endpoint may require a business plan.''
      else if truthy (response_detail err)
        then new_Error (''API Error: '' @ to_string (response_detail err))
      else new_Error (''Request failed: '' @ message err))"

text \<open>
  The \<^verbatim>\<open>try\<close> block of \<^verbatim>\<open>request\<close>: the body of the response, or the error thrown
  inside the block. The arguments of \<^verbatim>\<open>axios.get\<close> are evaluated before the call, so
  an error of \<^verbatim>\<open>getHeaders\<close> is thrown inside the block and no call is made. The
  result comes with the list of calls issued, the new one last.
\<close>

definition request_try ::
  "jsval \<Rightarrow> transport \<Rightarrow> string \<Rightarrow> jsobj \<Rightarrow> axios_call list
     \<Rightarrow> (js_error + jsval) \<times> axios_call list" where
  "request_try token axios_get endpoint params calls =
     (case getHeaders token of
        Inl err \<Rightarrow> (Inl err, calls)
      | Inr hdrs \<Rightarrow>
          (let call = \<lparr>call_url = BASE_URL @ endpoint, call_headers = hdrs,
                        call_params = params\<rparr>
           in case axios_get calls call of
                Resolved resp \<Rightarrow> (Inr (data resp), calls @ [call])
              | Rejected err \<Rightarrow> (Inl err, calls @ [call])))"

text \<open>\<^verbatim>\<open>request\<close>: the \<^verbatim>\<open>try\<close> block, and the \<^verbatim>\<open>catch\<close> block on what it threw.\<close>

definition request ::
  "jsval \<Rightarrow> transport \<Rightarrow> string \<Rightarrow> jsobj \<Rightarrow> axios_call list
     \<Rightarrow> (js_error + jsval) \<times> axios_call list" where
  "request token axios_get endpoint params calls =
     (case request_try token axios_get endpoint params calls of
        (Inl err, calls') \<Rightarrow> (Inl (request_catch err), calls')
      | (Inr body, calls') \<Rightarrow> (Inr body, calls'))"

section \<open>Wine scores\<close>

text \<open>
  The \<^verbatim>\<open>filters\<close> and \<^verbatim>\<open>options\<close> arguments are objects, as their documentation
  declares them; the empty list is the \<^verbatim>\<open>{}\<close> that a missing argument defaults to.
\<close>

text \<open>The parameter object \<^verbatim>\<open>getLatestScores\<close> builds from its filters.\<close>

definition getLatestScores_params :: "jsobj \<Rightarrow> jsobj" where
  "getLatestScores_params filters =
     (let params = [];
          params = (if truthy (get filters ''wine_id'')
                    then set_prop params ''wine_id'' (get filters ''wine_id'') else params);
          params = (if truthy (get filters ''vintage'')
                    then set_prop params ''vintage'' (get filters ''vintage'') else params);
          params = (if truthy (get filters ''color'')
                    then set_prop params ''color'' (get filters ''color'') else params);
          params = (if get filters ''is_primeurs'' \<noteq> JUndefined
                    then set_prop params ''is_primeurs'' (get filters ''is_primeurs'')
                    else params);
          params = (if truthy (get filters ''lwin'')
                    then set_prop params ''lwin'' (get filters ''lwin'') else params);
          params = (if truthy (get filters ''lwin_11'')
                    then set_prop params ''lwin_11'' (get filters ''lwin_11'') else params);
          params = (if truthy (get filters ''limit'')
                    then set_prop params ''limit'' (get filters ''limit'') else params);
          params = (if truthy (get filters ''offset'')
                    then set_prop params ''offset'' (get filters ''offset'') else params);
          params = (if truthy (get filters ''ordering'')
                    then set_prop params ''ordering'' (get filters ''ordering'') else params)
      in params)"

definition getLatestScores ::
  "jsval \<Rightarrow> transport \<Rightarrow> jsobj \<Rightarrow> axios_call list
     \<Rightarrow> (js_error + jsval) \<times> axios_call list" where
  "getLatestScores token axios_get filters calls =
     request token axios_get ''/globalwinescores/latest/'' (getLatestScores_params filters) calls"

text \<open>The parameter object \<^verbatim>\<open>getHistoricalScores\<close> builds from its filters.\<close>

definition getHistoricalScores_params :: "jsobj \<Rightarrow> jsobj" where
  "getHistoricalScores_params filters =
     (let params = [];
          params = (if truthy (get filters ''wine_id'')
                    then set_prop params ''wine_id'' (get filters ''wine_id'') else params);
          params = (if truthy (get filters ''vintage'')
                    then set_prop params ''vintage'' (get filters ''vintage'') else params);
          params = (if truthy (get filters ''color'')
                    then set_prop params ''color'' (get filters ''color'') else params);
          params = (if get filters ''is_primeurs'' \<noteq> JUndefined
                    then set_prop params ''is_primeurs'' (get filters ''is_primeurs'')
                    else params);
          params = (if truthy (get filters ''lwin'')
                    then set_prop params ''lwin'' (get filters ''lwin'') else params);
          params = (if truthy (get filters ''lwin_11'')
                    then set_prop params ''lwin_11'' (get filters ''lwin_11'') else params);
          params = (if truthy (get filters ''limit'')
                    then set_prop params ''limit'' (get filters ''limit'') else params);
          params = (if truthy (get filters ''offset'')
                    then set_prop params ''offset'' (get filters ''offset'') else params);
          params = (if truthy (get filters ''ordering'')
                    then set_prop params ''ordering'' (get filters ''ordering'') else params)
      in params)"

definition getHistoricalScores ::
  "jsval \<Rightarrow> transport \<Rightarrow> jsobj \<Rightarrow> axios_call list
     \<Rightarrow> (js_error + jsval) \<times> axios_call list" where
  "getHistoricalScores token axios_get filters calls =
     request token axios_get ''/globalwinescores/'' (getHistoricalScores_params filters) calls"

subsection \<open>Derived queries\<close>

text \<open>
  Each derived query builds a filter object from an object literal, defaults first and
  \<^verbatim>\<open>...options\<close> last, and hands it to \<^verbatim>\<open>getLatestScores\<close>. The filter object is
  defined on its own, so that what is transmitted can be read off.
\<close>

definition searchWines_filters :: "jsobj \<Rightarrow> jsobj" where
  "searchWines_filters options =
     spread [(''limit'', js_or (get options ''limit'') (JNum 20)),
             (''ordering'', js_or (get options ''ordering'') (JStr ''-score''))] options"

definition getScoresByVintage_filters :: "jsval \<Rightarrow> jsobj \<Rightarrow> jsobj" where
  "getScoresByVintage_filters vintage options =
     spread [(''vintage'', vintage),
             (''limit'', js_or (get options ''limit'') (JNum 50)),
             (''ordering'', js_or (get options ''ordering'') (JStr ''-score''))] options"

definition getScoresByColor_filters :: "string \<Rightarrow> jsobj \<Rightarrow> jsobj" where
  "getScoresByColor_filters color options =
     spread [(''color'', JStr (toLowerCase color)),
             (''limit'', js_or (get options ''limit'') (JNum 50)),
             (''ordering'', js_or (get options ''ordering'') (JStr ''-score''))] options"

definition getScoresByWineId_filters :: "jsval \<Rightarrow> jsobj \<Rightarrow> jsobj" where
  "getScoresByWineId_filters wineId options = spread [(''wine_id'', wineId)] options"

definition getScoresByLwin_filters :: "jsval \<Rightarrow> jsobj \<Rightarrow> jsobj" where
  "getScoresByLwin_filters lwin options = spread [(''lwin'', lwin)] options"

definition getTopRated_filters :: "jsobj \<Rightarrow> jsobj" where
  "getTopRated_filters options =
     spread [(''limit'', js_or (get options ''limit'') (JNum 20)),
             (''ordering'', JStr ''-score'')] options"

definition searchWines ::
  "jsval \<Rightarrow> transport \<Rightarrow> jsval \<Rightarrow> jsobj \<Rightarrow> axios_call list
     \<Rightarrow> (js_error + jsval) \<times> axios_call list" where
  "searchWines token axios_get query options calls =
     getLatestScores token axios_get (searchWines_filters options) calls"

definition getScoresByVintage ::
  "jsval \<Rightarrow> transport \<Rightarrow> jsval \<Rightarrow> jsobj \<Rightarrow> axios_call list
     \<Rightarrow> (js_error + jsval) \<times> axios_call list" where
  "getScoresByVintage token axios_get vintage options calls =
     getLatestScores token axios_get (getScoresByVintage_filters vintage options) calls"

definition getScoresByColor ::
  "jsval \<Rightarrow> transport \<Rightarrow> string \<Rightarrow> jsobj \<Rightarrow> axios_call list
     \<Rightarrow> (js_error + jsval) \<times> axios_call list" where
  "getScoresByColor token axios_get color options calls =
     getLatestScores token axios_get (getScoresByColor_filters color options) calls"

definition getScoresByWineId ::
  "jsval \<Rightarrow> transport \<Rightarrow> jsval \<Rightarrow> jsobj \<Rightarrow> axios_call list
     \<Rightarrow> (js_error + jsval) \<times> axios_call list" where
  "getScoresByWineId token axios_get wineId options calls =
     getLatestScores token axios_get (getScoresByWineId_filters wineId options) calls"

definition getScoresByLwin ::
  "jsval \<Rightarrow> transport \<Rightarrow> jsval \<Rightarrow> jsobj \<Rightarrow> axios_call list
     \<Rightarrow> (js_error + jsval) \<times> axios_call list" where
  "getScoresByLwin token axios_get lwin options calls =
     getLatestScores token axios_get (getScoresByLwin_filters lwin options) calls"

definition getTopRated ::
  "jsval \<Rightarrow> transport \<Rightarrow> jsobj \<Rightarrow> axios_call list
     \<Rightarrow> (js_error + jsval) \<times> axios_call list" where
  "getTopRated token axios_get options calls =
     getLatestScores token axios_get (getTopRated_filters options) calls"

section \<open>The failure categories\<close>

text \<open>
  \<^verbatim>\<open>src/api.js\<close> has no error classes: every failure is an \<^verbatim>\<open>Error\<close> told apart by its
  message. Each failure category of the specification names the error of one
  \<^verbatim>\<open>throw\<close> statement of \<^verbatim>\<open>request\<close>, in the order of the statements.
\<close>

definition Unauthenticated :: js_error where
  "Unauthenticated = JsError ''Authentication failed. Check your API token.'' None"

definition RateLimited :: js_error where
  "RateLimited = JsError ''Rate limit exceeded. Maximum 10 requests per minute.'' None"

definition PlanRestricted :: js_error where
  "PlanRestricted =
     JsError ''Access forbidden. This endpoint may require a business plan.'' None"

definition RemoteRejected :: "string \<Rightarrow> js_error" where
  "RemoteRejected detail = JsError (''API Error: '' @ detail) None"

definition TransportFailure :: "string \<Rightarrow> js_error" where
  "TransportFailure cause = JsError (''Request failed: '' @ cause) None"

section \<open>Properties of objects\<close>

lemma map_of_set_prop: "map_of (set_prop obj k v) = (map_of obj)(k \<mapsto> v)"
  by (simp add: set_prop_def update_conv')

lemma map_of_assign_if:
  "map_of (if c then set_prop obj k v else obj) k' =
     (if c \<and> k' = k then Some v else map_of obj k')"
  by (simp add: map_of_set_prop)

lemma map_of_fold_assign:
  "map_of (fold (\<lambda>k acc. set_prop acc k (g k)) ks t) k =
     (if k \<in> set ks then Some (g k) else map_of t k)"
  by (induction ks arbitrary: t) (auto simp: map_of_set_prop)

text \<open>A spread lays the source's properties over the target's.\<close>

lemma map_of_spread: "map_of (spread t s) = map_of t ++ map_of s"
proof
  fix k
  show "map_of (spread t s) k = (map_of t ++ map_of s) k"
  proof (cases "map_of s k")
    case None
    then have "k \<notin> fst ` set s" by (simp add: map_of_eq_None_iff)
    with None show ?thesis by (simp add: spread_def map_of_fold_assign map_add_def)
  next
    case (Some v)
    then have "k \<in> fst ` set s" by (metis map_of_eq_None_iff option.distinct(1))
    with Some show ?thesis by (simp add: spread_def map_of_fold_assign map_add_def get_def)
  qed
qed

lemma get_spread:
  "get (spread t s) k = (if k \<in> fst ` set s then get s k else get t k)"
proof (cases "map_of s k")
  case None
  then have "k \<notin> fst ` set s" by (simp add: map_of_eq_None_iff)
  with None show ?thesis by (simp add: get_def map_of_spread map_add_def)
next
  case (Some v)
  then have "k \<in> fst ` set s" by (metis map_of_eq_None_iff option.distinct(1))
  with Some show ?thesis by (simp add: get_def map_of_spread map_add_def)
qed

lemma get_absent: "k \<notin> fst ` set obj \<Longrightarrow> get obj k = JUndefined"
  by (simp add: get_def map_of_eq_None_iff [THEN iffD2])

section \<open>Parameter composition\<close>

text \<open>What \<^verbatim>\<open>getLatestScores\<close> puts under each key of the parameter object.\<close>

lemma getLatestScores_params_lookup:
  "map_of (getLatestScores_params f) k =
     (if k \<in> {''wine_id'', ''vintage'', ''color'', ''lwin'', ''lwin_11'', ''limit'', ''offset'',
               ''ordering''}
         \<and> truthy (get f k) then Some (get f k)
      else if k = ''is_primeurs'' \<and> get f k \<noteq> JUndefined then Some (get f k)
      else None)"
  unfolding getLatestScores_params_def Let_def map_of_assign_if
  by auto

text \<open>
  Claim C1, as the code has it. A field left \<^verbatim>\<open>undefined\<close> never appears among the
  query parameters. \<^verbatim>\<open>is_primeurs\<close> appears with its exact value whenever it is not
  \<^verbatim>\<open>undefined\<close>, also when it is \<^verbatim>\<open>false\<close>. Each of the other eight fields is guarded
  by \<^verbatim>\<open>if (filters.field)\<close>: it appears with its exact value when that value is truthy,
  and does not appear when it is falsy, so \<^verbatim>\<open>offset\<close> 0 and an empty string are not
  transmitted. No other key is ever transmitted.
\<close>

theorem getLatestScores_params_transmitted:
  "(get f k = JUndefined \<longrightarrow> map_of (getLatestScores_params f) k = None)
   \<and> (k = ''is_primeurs'' \<and> get f k \<noteq> JUndefined
        \<longrightarrow> map_of (getLatestScores_params f) k = Some (get f k))
   \<and> (k \<in> {''wine_id'', ''vintage'', ''color'', ''lwin'', ''lwin_11'', ''limit'', ''offset'',
             ''ordering''} \<and> truthy (get f k)
        \<longrightarrow> map_of (getLatestScores_params f) k = Some (get f k))
   \<and> (k \<in> {''wine_id'', ''vintage'', ''color'', ''lwin'', ''lwin_11'', ''limit'', ''offset'',
             ''ordering''} \<and> \<not> truthy (get f k)
        \<longrightarrow> map_of (getLatestScores_params f) k = None)
   \<and> (k \<notin> {''wine_id'', ''vintage'', ''color'', ''is_primeurs'', ''lwin'', ''lwin_11'',
             ''limit'', ''offset'', ''ordering''}
        \<longrightarrow> map_of (getLatestScores_params f) k = None)"
  unfolding getLatestScores_params_lookup by auto

text \<open>
  The filter \<^verbatim>\<open>{is_primeurs: false, vintage: "2015", offset: 0, page: 2}\<close>: the first two
  fields are transmitted; the offset, the absent colour and the unknown key are not.
\<close>

theorem getLatestScores_params_transmitted_witness:
  "map_of (getLatestScores_params
      [(''is_primeurs'', JBool False), (''vintage'', JStr ''2015''), (''offset'', JNum 0),
       (''page'', JNum 2)])
      ''is_primeurs'' = Some (JBool False)
   \<and> map_of (getLatestScores_params
      [(''is_primeurs'', JBool False), (''vintage'', JStr ''2015''), (''offset'', JNum 0),
       (''page'', JNum 2)])
      ''vintage'' = Some (JStr ''2015'')
   \<and> map_of (getLatestScores_params
      [(''is_primeurs'', JBool False), (''vintage'', JStr ''2015''), (''offset'', JNum 0),
       (''page'', JNum 2)])
      ''offset'' = None
   \<and> map_of (getLatestScores_params
      [(''is_primeurs'', JBool False), (''vintage'', JStr ''2015''), (''offset'', JNum 0),
       (''page'', JNum 2)])
      ''color'' = None
   \<and> map_of (getLatestScores_params
      [(''is_primeurs'', JBool False), (''vintage'', JStr ''2015''), (''offset'', JNum 0),
       (''page'', JNum 2)])
      ''page'' = None"
  using
    getLatestScores_params_transmitted
      [of "[(''is_primeurs'', JBool False), (''vintage'', JStr ''2015''), (''offset'', JNum 0),
       (''page'', JNum 2)]"
          "''is_primeurs''"]
    getLatestScores_params_transmitted
      [of "[(''is_primeurs'', JBool False), (''vintage'', JStr ''2015''), (''offset'', JNum 0),
       (''page'', JNum 2)]"
          "''vintage''"]
    getLatestScores_params_transmitted
      [of "[(''is_primeurs'', JBool False), (''vintage'', JStr ''2015''), (''offset'', JNum 0),
       (''page'', JNum 2)]"
          "''offset''"]
    getLatestScores_params_transmitted
      [of "[(''is_primeurs'', JBool False), (''vintage'', JStr ''2015''), (''offset'', JNum 0),
       (''page'', JNum 2)]"
          "''color''"]
    getLatestScores_params_transmitted
      [of "[(''is_primeurs'', JBool False), (''vintage'', JStr ''2015''), (''offset'', JNum 0),
       (''page'', JNum 2)]"
          "''page''"]
  by (simp add: get_def)

text \<open>
  The filter \<^verbatim>\<open>{wine_id: "", offset: 0}\<close> sets both fields explicitly, and neither is
  among the parameters.
\<close>

theorem falsy_filter_fields_not_transmitted:
  "get [(''wine_id'', JStr []), (''offset'', JNum 0)] ''offset'' = JNum 0
   \<and> map_of (getLatestScores_params [(''wine_id'', JStr []), (''offset'', JNum 0)]) ''offset''
       = None
   \<and> get [(''wine_id'', JStr []), (''offset'', JNum 0)] ''wine_id'' = JStr []
   \<and> map_of (getLatestScores_params [(''wine_id'', JStr []), (''offset'', JNum 0)]) ''wine_id''
       = None"
  by (simp add: getLatestScores_params_def get_def)

section \<open>Failures of a request\<close>

lemma request_try_no_token:
  "\<not> truthy token \<Longrightarrow>
     request_try token axios_get endpoint params calls =
       (Inl (new_Error
          ''API token not configured. Run: globalwinescore config set --api-token YOUR_TOKEN''),
        calls)"
  by (simp add: request_try_def getHeaders_def)

lemma request_try_token:
  "truthy token \<Longrightarrow>
     request_try token axios_get endpoint params calls =
       (let call = \<lparr>call_url = BASE_URL @ endpoint,
                     call_headers = [(''Authorization'', ''Token '' @ to_string token),
                                     (''Accept'', ''application/json'')],
                     call_params = params\<rparr>
        in case axios_get calls call of
             Resolved resp \<Rightarrow> (Inr (data resp), calls @ [call])
           | Rejected err \<Rightarrow> (Inl err, calls @ [call]))"
  by (simp add: request_try_def getHeaders_def)

text \<open>The \<^verbatim>\<open>catch\<close> block in the words of the failure categories.\<close>

lemma request_catch_classes:
  "request_catch err =
     (if response_status err = Some 401 then Unauthenticated
      else if response_status err = Some 429 then RateLimited
      else if response_status err = Some 403 then PlanRestricted
      else if truthy (response_detail err)
        then RemoteRejected (to_string (response_detail err))
      else TransportFailure (message err))"
  by (simp add: request_catch_def new_Error_def Unauthenticated_def RateLimited_def
      PlanRestricted_def RemoteRejected_def TransportFailure_def)

text \<open>No two categories are the same error, so the category of a failure is one.\<close>

lemma failure_categories_distinct:
  "Unauthenticated \<noteq> RateLimited \<and> Unauthenticated \<noteq> PlanRestricted
   \<and> RateLimited \<noteq> PlanRestricted
   \<and> RemoteRejected d \<noteq> Unauthenticated \<and> RemoteRejected d \<noteq> RateLimited
   \<and> RemoteRejected d \<noteq> PlanRestricted
   \<and> TransportFailure c \<noteq> Unauthenticated \<and> TransportFailure c \<noteq> RateLimited
   \<and> TransportFailure c \<noteq> PlanRestricted \<and> TransportFailure c \<noteq> RemoteRejected d"
  by (simp add: Unauthenticated_def RateLimited_def PlanRestricted_def RemoteRejected_def
      TransportFailure_def)

lemma request_failure:
  assumes "fst (request_try token axios_get endpoint params calls) = Inl err"
  shows "fst (request token axios_get endpoint params calls) = Inl (request_catch err)"
  using assms unfolding request_def
  by (cases "request_try token axios_get endpoint params calls") simp

text \<open>The message of each category, as its \<^verbatim>\<open>throw\<close> statement writes it.\<close>

lemma failure_category_messages:
  "message Unauthenticated = ''Authentication failed. Check your API token.''
   \<and> message RateLimited = ''Rate limit exceeded. Maximum 10 requests per minute.''
   \<and> message PlanRestricted = ''Access forbidden. This endpoint may require a business plan.''
   \<and> message (RemoteRejected d) = ''API Error: '' @ d
   \<and> message (TransportFailure c) = ''Request failed: '' @ c"
  by (simp add: Unauthenticated_def RateLimited_def PlanRestricted_def RemoteRejected_def
      TransportFailure_def)




text \<open>
  Claim C4, as the code has it. When the stored token is missing (falsy), no call is
  issued, and the request fails with the error of the last \<^verbatim>\<open>throw\<close> of the \<^verbatim>\<open>catch\<close>
  block: the error of \<^verbatim>\<open>getHeaders\<close> carries no response, so it is wrapped as the
  \<open>TransportFailure\<close> "Request failed: API token not configured. ...", and
  \<^verbatim>\<open>getLatestScores\<close> and \<^verbatim>\<open>getHistoricalScores\<close> fail the same way.
\<close>

theorem request_without_token:
  assumes "\<not> truthy token"
  shows "request token axios_get endpoint params calls =
           (Inl (TransportFailure
              ''API token not configured. Run: globalwinescore config set --api-token YOUR_TOKEN''),
            calls)
         \<and> getLatestScores token axios_get filters calls =
           (Inl (TransportFailure
              ''API token not configured. Run: globalwinescore config set --api-token YOUR_TOKEN''),
            calls)
         \<and> getHistoricalScores token axios_get filters calls =
           (Inl (TransportFailure
              ''API token not configured. Run: globalwinescore config set --api-token YOUR_TOKEN''),
            calls)"
  using assms
  by (simp add: getLatestScores_def getHistoricalScores_def request_def request_try_no_token
      request_catch_classes new_Error_def response_status_def response_detail_def)

text \<open>No token at all: the transport would answer, and is never asked.\<close>

theorem request_without_token_witness:
  "\<not> truthy JUndefined \<and>
   request JUndefined (\<lambda>calls call. Resolved \<lparr>status = 200, data = JNull\<rparr>)
      ''/globalwinescores/latest/'' [(''limit'', JNum 20)] [] =
       (Inl (TransportFailure
          ''API token not configured. Run: globalwinescore config set --api-token YOUR_TOKEN''),
        [])"
  using request_without_token
    [of JUndefined "\<lambda>calls call. Resolved \<lparr>status = 200, data = JNull\<rparr>"
        "''/globalwinescores/latest/''" "[(''limit'', JNum 20)]" "[]"]
  by simp

text \<open>The error of a request without a token is not the error thrown for status 401.\<close>

theorem request_without_token_not_Unauthenticated:
  "fst (request JUndefined (\<lambda>calls call. Resolved \<lparr>status = 200, data = JNull\<rparr>)
      ''/globalwinescores/latest/'' [] []) \<noteq> Inl Unauthenticated"
  by (simp add: request_def request_try_def getHeaders_def request_catch_def new_Error_def
      response_status_def response_detail_def Unauthenticated_def)

text \<open>
  Claim C5, as the code has it. When the error thrown in the \<^verbatim>\<open>try\<close> block carries a
  response whose status is none of 401, 429 and 403 and whose body carries a detail
  that is a non-empty string, the request fails with \<open>RemoteRejected\<close> of that string:
  the error whose message is "API Error: " followed by the detail string, unmodified.
  When the detail of the body is falsy (the empty string, \<^verbatim>\<open>null\<close>, \<^verbatim>\<open>false\<close>, 0), the
  request fails with the \<open>TransportFailure\<close> of the cause instead.
\<close>

theorem request_remote_rejected:
  assumes "fst (request_try token axios_get endpoint params calls) = Inl err"
    and "response err = Some r"
    and "status r \<noteq> 401" and "status r \<noteq> 429" and "status r \<noteq> 403"
    and "data r = JObj body"
  shows
    "(map_of body ''detail'' = Some (JStr d) \<and> d \<noteq> [] \<longrightarrow>
        fst (request token axios_get endpoint params calls) = Inl (RemoteRejected d)
        \<and> RemoteRejected d = JsError (''API Error: '' @ d) None)
     \<and> (map_of body ''detail'' = Some v \<and> \<not> truthy v \<longrightarrow>
        fst (request token axios_get endpoint params calls)
          = Inl (TransportFailure (message err))
        \<and> TransportFailure (message err)
          = JsError (''Request failed: '' @ message err) None)"
  using assms(2-)
  unfolding request_failure [OF assms(1)] request_catch_classes
  by (auto simp add: response_status_def response_detail_def get_def RemoteRejected_def
      TransportFailure_def)

text \<open>
  A 400 response with the body \<^verbatim>\<open>{"detail": "invalid vintage"}\<close>, and a 400 response
  with the body \<^verbatim>\<open>{"detail": null}\<close>.
\<close>

theorem request_remote_rejected_witness:
  "fst (request (JStr ''t0k'')
      (\<lambda>calls call. Rejected (JsError ''Request failed with status code 400''
          (Some \<lparr>status = 400, data = JObj [(''detail'', JStr ''invalid vintage'')]\<rparr>)))
      ''/globalwinescores/latest/'' [] [])
    = Inl (JsError ''API Error: invalid vintage'' None)
   \<and> RemoteRejected ''invalid vintage'' = JsError ''API Error: invalid vintage'' None
   \<and> fst (request (JStr ''t0k'')
      (\<lambda>calls call. Rejected (JsError ''Request failed with status code 400''
          (Some \<lparr>status = 400, data = JObj [(''detail'', JNull)]\<rparr>)))
      ''/globalwinescores/latest/'' [] [])
    = Inl (JsError ''Request failed: Request failed with status code 400'' None)"
  using
    request_remote_rejected
      [where token = "JStr ''t0k''"
         and axios_get = "\<lambda>calls call. Rejected (JsError ''Request failed with status code 400''
          (Some \<lparr>status = 400, data = JObj [(''detail'', JStr ''invalid vintage'')]\<rparr>))"
         and endpoint = "''/globalwinescores/latest/''" and params = "[]" and calls = "[]"
         and err = "JsError ''Request failed with status code 400''
          (Some \<lparr>status = 400, data = JObj [(''detail'', JStr ''invalid vintage'')]\<rparr>)"
         and r = "\<lparr>status = 400, data = JObj [(''detail'', JStr ''invalid vintage'')]\<rparr>"
         and body = "[(''detail'', JStr ''invalid vintage'')]"
         and d = "''invalid vintage''" and v = "JStr ''invalid vintage''"]
    request_remote_rejected
      [where token = "JStr ''t0k''"
         and axios_get = "\<lambda>calls call. Rejected (JsError ''Request failed with status code 400''
          (Some \<lparr>status = 400, data = JObj [(''detail'', JNull)]\<rparr>))"
         and endpoint = "''/globalwinescores/latest/''" and params = "[]" and calls = "[]"
         and err = "JsError ''Request failed with status code 400''
          (Some \<lparr>status = 400, data = JObj [(''detail'', JNull)]\<rparr>)"
         and r = "\<lparr>status = 400, data = JObj [(''detail'', JNull)]\<rparr>"
         and body = "[(''detail'', JNull)]"
         and d = "''x''" and v = "JNull"]
  by (simp add: request_try_def getHeaders_def)

text \<open>
  A 400 response with the body \<^verbatim>\<open>{"detail": ""}\<close>: the body carries a detail field, the
  field is falsy, and the request fails with the \<open>TransportFailure\<close> of the cause.
\<close>

theorem empty_detail_not_RemoteRejected:
  "fst (request (JStr ''t0k'')
      (\<lambda>calls call. Rejected (JsError ''Request failed with status code 400''
          (Some \<lparr>status = 400, data = JObj [(''detail'', JStr [])]\<rparr>)))
      ''/globalwinescores/latest/'' [] [])
    = Inl (TransportFailure ''Request failed with status code 400'')
   \<and> TransportFailure ''Request failed with status code 400'' \<noteq> RemoteRejected []"
  by (simp add: request_def request_try_def getHeaders_def request_catch_def new_Error_def
      response_status_def response_detail_def TransportFailure_def RemoteRejected_def get_def)

section \<open>Calls issued and bodies returned\<close>

lemma request_token:
  "truthy token \<Longrightarrow>
     request token axios_get endpoint params calls =
       (case axios_get calls
               \<lparr>call_url = BASE_URL @ endpoint,
                call_headers = [(''Authorization'', ''Token '' @ to_string token),
                                (''Accept'', ''application/json'')],
                call_params = params\<rparr> of
          Resolved resp \<Rightarrow>
            (Inr (data resp),
             calls @ [\<lparr>call_url = BASE_URL @ endpoint,
                       call_headers = [(''Authorization'', ''Token '' @ to_string token),
                                       (''Accept'', ''application/json'')],
                       call_params = params\<rparr>])
        | Rejected err \<Rightarrow>
            (Inl (request_catch err),
             calls @ [\<lparr>call_url = BASE_URL @ endpoint,
                       call_headers = [(''Authorization'', ''Token '' @ to_string token),
                                       (''Accept'', ''application/json'')],
                       call_params = params\<rparr>]))"
  by (simp add: request_def request_try_token Let_def split: outcome.split)

lemma request_calls:
  "snd (request token axios_get endpoint params calls) =
     (if truthy token
      then calls @ [\<lparr>call_url = BASE_URL @ endpoint,
                     call_headers = [(''Authorization'', ''Token '' @ to_string token),
                                     (''Accept'', ''application/json'')],
                     call_params = params\<rparr>]
      else calls)"
proof (cases "truthy token")
  case True
  then show ?thesis by (simp add: request_token split: outcome.split)
next
  case False
  then show ?thesis by (simp add: request_def request_try_no_token)
qed

text \<open>
  Claim C6. A request issues no call or exactly one call, added to those issued
  before; and when that one call is answered with status 429, the request fails with
  \<open>RateLimited\<close> with that call as the only new one, whatever the transport would answer
  to a second call.
\<close>

theorem request_at_most_one_call:
  "(snd (request token axios_get endpoint params calls) = calls
      \<or> (\<exists>call. snd (request token axios_get endpoint params calls) = calls @ [call]))
   \<and> (truthy token
        \<and> axios_get calls
             \<lparr>call_url = BASE_URL @ endpoint,
              call_headers = [(''Authorization'', ''Token '' @ to_string token),
                              (''Accept'', ''application/json'')],
              call_params = params\<rparr> = Rejected err
        \<and> response_status err = Some 429
      \<longrightarrow> request token axios_get endpoint params calls =
            (Inl RateLimited,
             calls @ [\<lparr>call_url = BASE_URL @ endpoint,
                       call_headers = [(''Authorization'', ''Token '' @ to_string token),
                                       (''Accept'', ''application/json'')],
                       call_params = params\<rparr>]))"
  by (auto simp add: request_calls request_token request_catch_classes)

text \<open>
  A transport that answers the first call with 429 and would answer a second one with
  200: the request fails with \<open>RateLimited\<close> after the first call.
\<close>

theorem request_at_most_one_call_witness:
  "request (JStr ''t0k'')
      (\<lambda>calls call. if calls = []
         then Rejected (JsError ''Request failed with status code 429''
                (Some \<lparr>status = 429, data = JObj [(''detail'', JStr ''throttled'')]\<rparr>))
         else Resolved \<lparr>status = 200, data = JObj [(''count'', JNum 0)]\<rparr>)
      ''/globalwinescores/latest/'' [(''limit'', JNum 20)] []
    = (Inl RateLimited,
       [\<lparr>call_url = ''https://api.globalwinescore.com/globalwinescores/latest/'',
         call_headers = [(''Authorization'', ''Token t0k''), (''Accept'', ''application/json'')],
         call_params = [(''limit'', JNum 20)]\<rparr>])"
  using request_at_most_one_call
    [of "JStr ''t0k''"
        "\<lambda>calls call. if calls = []
           then Rejected (JsError ''Request failed with status code 429''
                  (Some \<lparr>status = 429, data = JObj [(''detail'', JStr ''throttled'')]\<rparr>))
           else Resolved \<lparr>status = 200, data = JObj [(''count'', JNum 0)]\<rparr>"
        "''/globalwinescores/latest/''" "[(''limit'', JNum 20)]" "[]"
        "JsError ''Request failed with status code 429''
           (Some \<lparr>status = 429, data = JObj [(''detail'', JStr ''throttled'')]\<rparr>)"]
  by (simp add: response_status_def BASE_URL_def)

text \<open>
  Claim C8. When a token is stored and the call resolves (a 2xx response), the request
  returns the body of the response as it is.
\<close>

theorem request_returns_body:
  assumes "truthy token"
    and "axios_get calls
           \<lparr>call_url = BASE_URL @ endpoint,
            call_headers = [(''Authorization'', ''Token '' @ to_string token),
                            (''Accept'', ''application/json'')],
            call_params = params\<rparr> = Resolved resp"
  shows "fst (request token axios_get endpoint params calls) = Inr (data resp)"
  using assms by (simp add: request_token)

text \<open>A page of two scores, whose fields differ, comes back unchanged and in order.\<close>

theorem request_returns_body_witness:
  "fst (request (JStr ''t0k'')
      (\<lambda>calls call. Resolved
         \<lparr>status = 200,
          data = JObj [(''count'', JNum 2), (''next'', JNull), (''previous'', JNull),
            (''results'', JArr [JObj [(''wine_name'', JStr ''B''), (''score'', JNum 97)],
                                JObj [(''wine'', JStr ''A''), (''vintage'', JNum 2015)]])]\<rparr>)
      ''/globalwinescores/latest/'' [] [])
   = Inr (JObj [(''count'', JNum 2), (''next'', JNull), (''previous'', JNull),
            (''results'', JArr [JObj [(''wine_name'', JStr ''B''), (''score'', JNum 97)],
                                JObj [(''wine'', JStr ''A''), (''vintage'', JNum 2015)]])])"
  using request_returns_body
    [of "JStr ''t0k''"
        "\<lambda>calls call. Resolved
           \<lparr>status = 200,
            data = JObj [(''count'', JNum 2), (''next'', JNull), (''previous'', JNull),
              (''results'', JArr [JObj [(''wine_name'', JStr ''B''), (''score'', JNum 97)],
                                  JObj [(''wine'', JStr ''A''), (''vintage'', JNum 2015)]])]\<rparr>"
        "[]" "''/globalwinescores/latest/''" "[]"]
  by simp

text \<open>
  Claim C10. \<^verbatim>\<open>getLatestScores\<close> and \<^verbatim>\<open>getHistoricalScores\<close> build the same parameter
  object from a filter object; each is one request with these parameters, and the calls
  they issue differ in the URL alone.
\<close>

theorem latest_historical_same_params:
  "getLatestScores_params filters = getHistoricalScores_params filters
   \<and> getLatestScores token axios_get filters calls =
       request token axios_get ''/globalwinescores/latest/''
         (getLatestScores_params filters) calls
   \<and> getHistoricalScores token axios_get filters calls =
       request token axios_get ''/globalwinescores/'' (getLatestScores_params filters) calls
   \<and> (truthy token \<longrightarrow>
        snd (getLatestScores token axios_get filters calls) =
          calls @ [\<lparr>call_url = ''https://api.globalwinescore.com/globalwinescores/latest/'',
                    call_headers = [(''Authorization'', ''Token '' @ to_string token),
                                    (''Accept'', ''application/json'')],
                    call_params = getLatestScores_params filters\<rparr>]
        \<and> snd (getHistoricalScores token axios_get filters calls) =
          calls @ [\<lparr>call_url = ''https://api.globalwinescore.com/globalwinescores/'',
                    call_headers = [(''Authorization'', ''Token '' @ to_string token),
                                    (''Accept'', ''application/json'')],
                    call_params = getLatestScores_params filters\<rparr>])"
proof -
  have same: "getHistoricalScores_params filters = getLatestScores_params filters"
    by (simp add: getLatestScores_params_def getHistoricalScores_params_def)
  show ?thesis
    by (simp add: same getLatestScores_def getHistoricalScores_def request_calls BASE_URL_def)
qed

text \<open>The filter \<^verbatim>\<open>{vintage: "2015", offset: 0}\<close> on both endpoints.\<close>

theorem latest_historical_same_params_witness:
  "snd (getLatestScores (JStr ''t0k'')
          (\<lambda>calls call. Resolved \<lparr>status = 200, data = JNull\<rparr>)
          [(''vintage'', JStr ''2015''), (''offset'', JNum 0)] []) =
     [\<lparr>call_url = ''https://api.globalwinescore.com/globalwinescores/latest/'',
       call_headers = [(''Authorization'', ''Token t0k''), (''Accept'', ''application/json'')],
       call_params = [(''vintage'', JStr ''2015'')]\<rparr>]
   \<and> snd (getHistoricalScores (JStr ''t0k'')
          (\<lambda>calls call. Resolved \<lparr>status = 200, data = JNull\<rparr>)
          [(''vintage'', JStr ''2015''), (''offset'', JNum 0)] []) =
     [\<lparr>call_url = ''https://api.globalwinescore.com/globalwinescores/'',
       call_headers = [(''Authorization'', ''Token t0k''), (''Accept'', ''application/json'')],
       call_params = [(''vintage'', JStr ''2015'')]\<rparr>]"
  using latest_historical_same_params
    [of "[(''vintage'', JStr ''2015''), (''offset'', JNum 0)]" "JStr ''t0k''"
        "\<lambda>calls call. Resolved \<lparr>status = 200, data = JNull\<rparr>" "[]",
     THEN conjunct2, THEN conjunct2, THEN conjunct2]
  by (simp add: getLatestScores_params_def get_def set_prop_def)

section \<open>Derived queries\<close>

lemma toLowerCase_eq_Nil: "toLowerCase s = [] \<longleftrightarrow> s = []"
  by (simp add: toLowerCase_def)

lemma toLowerCase_RED: "toLowerCase ''RED'' = ''red''"
  by code_simp

lemma toLowerCase_White: "toLowerCase ''White Wine'' = ''white wine''"
  by code_simp

lemma toLowerCase_accents:
  "toLowerCase [CHR 0xC9, CHR ''T'', CHR 0xC9, CHR 0xD7, CHR 0xDF, CHR ''7'']
     = [CHR 0xE9, CHR ''t'', CHR 0xE9, CHR 0xD7, CHR 0xDF, CHR ''7'']"
  by code_simp

text \<open>Lower-casing character by character, in the numbers of the code points.\<close>

lemma toLowerCase_pointwise:
  "length (toLowerCase s) = length s
   \<and> (\<forall>i<length s.
        (of_char (toLowerCase s ! i) :: nat) =
          (if (65 \<le> (of_char (s ! i) :: nat) \<and> (of_char (s ! i) :: nat) \<le> 90)
              \<or> (192 \<le> (of_char (s ! i) :: nat) \<and> (of_char (s ! i) :: nat) \<le> 222
                  \<and> (of_char (s ! i) :: nat) \<noteq> 215)
           then (of_char (s ! i) :: nat) + 32 else of_char (s ! i)))"
  by (simp add: toLowerCase_def lower_char_def)

text \<open>
  The fields of the filter object of \<^verbatim>\<open>getTopRated\<close>: a property of the options, when
  there is one, takes the place of the value written before the spread.
\<close>

lemma getTopRated_filters_get:
  "get (getTopRated_filters options) k =
     (if k \<in> fst ` set options then get options k
      else if k = ''limit'' then js_or (get options ''limit'') (JNum 20)
      else if k = ''ordering'' then JStr ''-score''
      else JUndefined)"
  unfolding getTopRated_filters_def get_spread
  by (simp add: get_def)

text \<open>
  Claim C3 says that \<^verbatim>\<open>getTopRated\<close> transmits \<^verbatim>\<open>ordering=-score\<close> whatever the options
  hold. The code writes \<^verbatim>\<open>ordering: '-score'\<close> before \<^verbatim>\<open>...options\<close>, so an ordering in
  the options overwrites it: with the options \<^verbatim>\<open>{ordering: "date"}\<close> the one call issued
  carries \<^verbatim>\<open>ordering=date\<close>.
\<close>

theorem getTopRated_ordering_overridden:
  "snd (getTopRated (JStr ''t0k'') (\<lambda>calls call. Resolved \<lparr>status = 200, data = JNull\<rparr>)
         [(''ordering'', JStr ''date'')] [])
     = [\<lparr>call_url = ''https://api.globalwinescore.com/globalwinescores/latest/'',
         call_headers = [(''Authorization'', ''Token t0k''), (''Accept'', ''application/json'')],
         call_params = [(''limit'', JNum 20), (''ordering'', JStr ''date'')]\<rparr>]"
  by (simp add: getTopRated_def getTopRated_filters_def getLatestScores_def request_def
      request_try_def getHeaders_def BASE_URL_def getLatestScores_params_def spread_def
      set_prop_def get_def js_or_def)

text \<open>The fields of the filter object of \<^verbatim>\<open>getScoresByColor\<close>.\<close>

lemma getScoresByColor_filters_get:
  "get (getScoresByColor_filters color options) k =
     (if k \<in> fst ` set options then get options k
      else if k = ''color'' then JStr (toLowerCase color)
      else if k = ''limit'' then js_or (get options ''limit'') (JNum 50)
      else if k = ''ordering'' then js_or (get options ''ordering'') (JStr ''-score'')
      else JUndefined)"
  unfolding getScoresByColor_filters_def get_spread
  by (simp add: get_def)

text \<open>
  Claim C7, as the code has it. \<^verbatim>\<open>getScoresByColor\<close> lower-cases its colour argument,
  character by character, and transmits it as \<^verbatim>\<open>color\<close> when the options have no
  \<^verbatim>\<open>color\<close> property of their own and the argument is not the empty string; the empty
  argument is not transmitted, and a \<^verbatim>\<open>color\<close> property of the options takes the place
  of the argument (transmitted when truthy). When the options have no \<^verbatim>\<open>limit\<close>
  property it transmits \<^verbatim>\<open>limit=50\<close>, and when they have no \<^verbatim>\<open>ordering\<close> property it
  transmits \<^verbatim>\<open>ordering=-score\<close>.
\<close>

theorem getScoresByColor_transmitted:
  "(map_of options ''color'' = None \<and> color \<noteq> [] \<longrightarrow>
      (\<exists>s. map_of (getLatestScores_params (getScoresByColor_filters color options)) ''color''
             = Some (JStr s)
           \<and> length s = length color
           \<and> (\<forall>i<length color.
                (of_char (s ! i) :: nat) =
                  (if (65 \<le> (of_char (color ! i) :: nat) \<and> (of_char (color ! i) :: nat) \<le> 90)
                      \<or> (192 \<le> (of_char (color ! i) :: nat)
                          \<and> (of_char (color ! i) :: nat) \<le> 222
                          \<and> (of_char (color ! i) :: nat) \<noteq> 215)
                   then (of_char (color ! i) :: nat) + 32 else of_char (color ! i)))))
   \<and> (map_of options ''color'' = None \<and> color = [] \<longrightarrow>
      map_of (getLatestScores_params (getScoresByColor_filters color options)) ''color'' = None)
   \<and> (map_of options ''color'' = Some v \<longrightarrow>
      map_of (getLatestScores_params (getScoresByColor_filters color options)) ''color''
        = (if truthy v then Some v else None))
   \<and> (map_of options ''limit'' = None \<longrightarrow>
      map_of (getLatestScores_params (getScoresByColor_filters color options)) ''limit''
        = Some (JNum 50))
   \<and> (map_of options ''ordering'' = None \<longrightarrow>
      map_of (getLatestScores_params (getScoresByColor_filters color options)) ''ordering''
        = Some (JStr ''-score''))"
proof -
  have absent: "k \<notin> fst ` set options" if "map_of options k = None" for k
    using that by (simp add: map_of_eq_None_iff)
  have present: "k \<in> fst ` set options \<and> get options k = w" if "map_of options k = Some w" for k w
    using that by (metis get_def map_of_eq_None_iff option.distinct(1) option.simps(5))
  have c: "get (getScoresByColor_filters color options) ''color'' = JStr (toLowerCase color)"
    if "map_of options ''color'' = None"
    using absent [OF that] by (simp add: getScoresByColor_filters_get)
  have l: "get (getScoresByColor_filters color options) ''limit'' = JNum 50"
    if "map_of options ''limit'' = None"
    using absent [OF that] by (simp add: getScoresByColor_filters_get get_absent js_or_def)
  have o: "get (getScoresByColor_filters color options) ''ordering'' = JStr ''-score''"
    if "map_of options ''ordering'' = None"
    using absent [OF that] by (simp add: getScoresByColor_filters_get get_absent js_or_def)
  have p: "get (getScoresByColor_filters color options) ''color'' = v"
    if "map_of options ''color'' = Some v"
    using present [OF that] by (simp add: getScoresByColor_filters_get)
  have 1: "map_of options ''color'' = None \<and> color \<noteq> [] \<longrightarrow>
      (\<exists>s. map_of (getLatestScores_params (getScoresByColor_filters color options)) ''color''
             = Some (JStr s)
           \<and> length s = length color
           \<and> (\<forall>i<length color.
                (of_char (s ! i) :: nat) =
                  (if (65 \<le> (of_char (color ! i) :: nat) \<and> (of_char (color ! i) :: nat) \<le> 90)
                      \<or> (192 \<le> (of_char (color ! i) :: nat)
                          \<and> (of_char (color ! i) :: nat) \<le> 222
                          \<and> (of_char (color ! i) :: nat) \<noteq> 215)
                   then (of_char (color ! i) :: nat) + 32 else of_char (color ! i))))"
  proof (intro impI, elim conjE)
    assume none: "map_of options ''color'' = None" and ne: "color \<noteq> []"
    have "map_of (getLatestScores_params (getScoresByColor_filters color options)) ''color''
            = Some (JStr (toLowerCase color))"
      using ne by (simp add: getLatestScores_params_lookup c [OF none] toLowerCase_eq_Nil)
    with toLowerCase_pointwise [of color] show "\<exists>s.
           map_of (getLatestScores_params (getScoresByColor_filters color options)) ''color''
             = Some (JStr s)
           \<and> length s = length color
           \<and> (\<forall>i<length color.
                (of_char (s ! i) :: nat) =
                  (if (65 \<le> (of_char (color ! i) :: nat) \<and> (of_char (color ! i) :: nat) \<le> 90)
                      \<or> (192 \<le> (of_char (color ! i) :: nat)
                          \<and> (of_char (color ! i) :: nat) \<le> 222
                          \<and> (of_char (color ! i) :: nat) \<noteq> 215)
                   then (of_char (color ! i) :: nat) + 32 else of_char (color ! i)))"
      by blast
  qed
  have 2: "map_of options ''color'' = None \<and> color = [] \<longrightarrow>
      map_of (getLatestScores_params (getScoresByColor_filters color options)) ''color'' = None"
  proof (intro impI, elim conjE)
    assume none: "map_of options ''color'' = None" and e: "color = []"
    have "get (getScoresByColor_filters color options) ''color'' = JStr []"
      unfolding c [OF none] by (simp add: e toLowerCase_def)
    then show "map_of (getLatestScores_params (getScoresByColor_filters color options))
                 ''color'' = None"
      unfolding getLatestScores_params_lookup by simp
  qed
  have 3: "map_of options ''color'' = Some v \<longrightarrow>
      map_of (getLatestScores_params (getScoresByColor_filters color options)) ''color''
        = (if truthy v then Some v else None)"
    by (simp add: getLatestScores_params_lookup p)
  have 4: "map_of options ''limit'' = None \<longrightarrow>
      map_of (getLatestScores_params (getScoresByColor_filters color options)) ''limit''
        = Some (JNum 50)"
    by (simp add: getLatestScores_params_lookup l)
  have 5: "map_of options ''ordering'' = None \<longrightarrow>
      map_of (getLatestScores_params (getScoresByColor_filters color options)) ''ordering''
        = Some (JStr ''-score'')"
    by (simp add: getLatestScores_params_lookup o)
  from 1 2 3 4 5 show ?thesis by blast
qed

text \<open>
  \<^verbatim>\<open>getScoresByColor("RED", {vintage: "2015"})\<close> transmits a colour of three characters,
  the first of which is r (114), with 50 and -score; the empty colour is not
  transmitted; with the options \<^verbatim>\<open>{color: "white"}\<close> the colour of the options is; and
  the capital E with an acute accent (201) is transmitted as the small one (233).
\<close>

theorem getScoresByColor_transmitted_witness:
  "(\<exists>s. map_of (getLatestScores_params
            (getScoresByColor_filters ''RED'' [(''vintage'', JStr ''2015'')])) ''color''
          = Some (JStr s)
        \<and> length s = 3 \<and> (of_char (s ! 0) :: nat) = 114 \<and> (of_char (s ! 1) :: nat) = 101
        \<and> (of_char (s ! 2) :: nat) = 100)
   \<and> map_of (getLatestScores_params
        (getScoresByColor_filters ''RED'' [(''vintage'', JStr ''2015'')])) ''limit''
       = Some (JNum 50)
   \<and> map_of (getLatestScores_params
        (getScoresByColor_filters ''RED'' [(''vintage'', JStr ''2015'')])) ''ordering''
       = Some (JStr ''-score'')
   \<and> map_of (getLatestScores_params (getScoresByColor_filters [] [])) ''color'' = None
   \<and> map_of (getLatestScores_params
        (getScoresByColor_filters ''RED'' [(''color'', JStr ''white'')])) ''color''
       = Some (JStr ''white'')
   \<and> (\<exists>s. map_of (getLatestScores_params
            (getScoresByColor_filters [CHR 0xC9, CHR ''t'', CHR 0xC9] [])) ''color''
          = Some (JStr s)
        \<and> length s = 3 \<and> (of_char (s ! 0) :: nat) = 233 \<and> (of_char (s ! 1) :: nat) = 116
        \<and> (of_char (s ! 2) :: nat) = 233)"
proof -
  have a: "(\<exists>s. map_of (getLatestScores_params
            (getScoresByColor_filters ''RED'' [(''vintage'', JStr ''2015'')])) ''color''
          = Some (JStr s)
        \<and> length s = 3 \<and> (of_char (s ! 0) :: nat) = 114 \<and> (of_char (s ! 1) :: nat) = 101
        \<and> (of_char (s ! 2) :: nat) = 100)"
    using getScoresByColor_transmitted
      [where options = "[(''vintage'', JStr ''2015'')]" and color = "''RED''",
       THEN conjunct1]
    by (auto simp add: numeral_3_eq_3 numeral_2_eq_2 less_Suc_eq)
  have b: "map_of (getLatestScores_params
        (getScoresByColor_filters ''RED'' [(''vintage'', JStr ''2015'')])) ''limit''
       = Some (JNum 50)
     \<and> map_of (getLatestScores_params
        (getScoresByColor_filters ''RED'' [(''vintage'', JStr ''2015'')])) ''ordering''
       = Some (JStr ''-score'')"
    using getScoresByColor_transmitted
      [where options = "[(''vintage'', JStr ''2015'')]" and color = "''RED''"]
    by simp
  have c: "map_of (getLatestScores_params (getScoresByColor_filters [] [])) ''color'' = None"
    using getScoresByColor_transmitted [where options = "[]" and color = "[]"]
    by simp
  have d: "map_of (getLatestScores_params
        (getScoresByColor_filters ''RED'' [(''color'', JStr ''white'')])) ''color''
       = Some (JStr ''white'')"
    using getScoresByColor_transmitted
      [where options = "[(''color'', JStr ''white'')]" and color = "''RED''"
         and v = "JStr ''white''"]
    by simp
  have e: "(\<exists>s. map_of (getLatestScores_params
            (getScoresByColor_filters [CHR 0xC9, CHR ''t'', CHR 0xC9] [])) ''color''
          = Some (JStr s)
        \<and> length s = 3 \<and> (of_char (s ! 0) :: nat) = 233 \<and> (of_char (s ! 1) :: nat) = 116
        \<and> (of_char (s ! 2) :: nat) = 233)"
    using getScoresByColor_transmitted
      [where options = "[]" and color = "[CHR 0xC9, CHR ''t'', CHR 0xC9]", THEN conjunct1]
    by (auto simp add: numeral_3_eq_3 numeral_2_eq_2 less_Suc_eq)
  from a b c d e show ?thesis by blast
qed

text \<open>
  \<^verbatim>\<open>getScoresByColor("RED", {color: "WHITE"})\<close> transmits the colour of the options, which
  is not the argument in lower case; and \<^verbatim>\<open>getScoresByColor("", {})\<close> transmits no
  colour.
\<close>

theorem getScoresByColor_color_overridden:
  "map_of (getLatestScores_params
      (getScoresByColor_filters ''RED'' [(''color'', JStr ''WHITE'')])) ''color''
     = Some (JStr ''WHITE'')
   \<and> JStr ''WHITE'' \<noteq> JStr (toLowerCase ''RED'')
   \<and> map_of (getLatestScores_params (getScoresByColor_filters [] [])) ''color'' = None"
proof -
  have "get [(''color'', JStr ''WHITE'')] ''color'' = JStr ''WHITE''"
    by (simp add: get_def)
  then have "get (getScoresByColor_filters ''RED'' [(''color'', JStr ''WHITE'')]) ''color''
               = JStr ''WHITE''"
    by (simp add: getScoresByColor_filters_get)
  moreover have "get (getScoresByColor_filters [] []) ''color'' = JStr []"
    by (simp add: getScoresByColor_filters_get toLowerCase_def)
  ultimately show ?thesis
    by (simp add: getLatestScores_params_lookup toLowerCase_RED)
qed

section \<open>Reading the parameters back\<close>

text \<open>
  Claim C9, as the code has it. The parameter object uses the field names of the filter
  object, so it is read back as a filter by reading its properties. Read back,
  \<^verbatim>\<open>is_primeurs\<close> is what the filter held, and each of the other eight fields is what
  the filter held when that was truthy and \<^verbatim>\<open>undefined\<close> otherwise: a field set to 0 or
  to the empty string is lost. Composing the parameters again from the filter read
  back gives the same parameters.
\<close>

theorem params_round_trip:
  "get (getLatestScores_params f) k =
     (if k = ''is_primeurs''
         \<or> (k \<in> {''wine_id'', ''vintage'', ''color'', ''lwin'', ''lwin_11'', ''limit'',
                  ''offset'', ''ordering''} \<and> truthy (get f k))
      then get f k else JUndefined)
   \<and> get (getLatestScores_params (getLatestScores_params f)) k
       = get (getLatestScores_params f) k"
proof -
  have rd: "get (getLatestScores_params g) k =
     (if k = ''is_primeurs''
         \<or> (k \<in> {''wine_id'', ''vintage'', ''color'', ''lwin'', ''lwin_11'', ''limit'',
                  ''offset'', ''ordering''} \<and> truthy (get g k))
      then get g k else JUndefined)" for g
    unfolding get_def [of "getLatestScores_params g"] getLatestScores_params_lookup
    by auto
  have "get (getLatestScores_params (getLatestScores_params f)) k
          = get (getLatestScores_params f) k"
    unfolding rd [of "getLatestScores_params f"] unfolding rd [of f] by simp
  with rd [of f] show ?thesis by simp
qed

text \<open>The filter \<^verbatim>\<open>{vintage: "2015", is_primeurs: false}\<close> is read back whole.\<close>

theorem params_round_trip_witness:
  "get (getLatestScores_params [(''vintage'', JStr ''2015''), (''is_primeurs'', JBool False)])
      ''vintage'' = JStr ''2015''
   \<and> get (getLatestScores_params [(''vintage'', JStr ''2015''), (''is_primeurs'', JBool False)])
      ''is_primeurs'' = JBool False"
  using
    params_round_trip
      [of "[(''vintage'', JStr ''2015''), (''is_primeurs'', JBool False)]" "''vintage''",
       THEN conjunct1]
    params_round_trip
      [of "[(''vintage'', JStr ''2015''), (''is_primeurs'', JBool False)]" "''is_primeurs''",
       THEN conjunct1]
  by (simp add: get_def)

text \<open>
  The filter \<^verbatim>\<open>{vintage: "2015", offset: 0}\<close> is composed to the vintage alone; read
  back, the offset is \<^verbatim>\<open>undefined\<close> and not 0.
\<close>

theorem round_trip_loses_offset_zero:
  "getLatestScores_params [(''vintage'', JStr ''2015''), (''offset'', JNum 0)]
     = [(''vintage'', JStr ''2015'')]
   \<and> get (getLatestScores_params [(''vintage'', JStr ''2015''), (''offset'', JNum 0)]) ''offset''
     \<noteq> get [(''vintage'', JStr ''2015''), (''offset'', JNum 0)] ''offset''"
  by (simp add: getLatestScores_params_def get_def set_prop_def)

end
